theory Spec2Isabelle
  imports Complex_Main
begin

section \<open>Shared conventions\<close>

text \<open>
  The two modules of the service are embedded here: \<^verbatim>\<open>main.py\<close> (the request handler
  \<^verbatim>\<open>get_hype\<close> with its in-memory cache and the aggregation \<^verbatim>\<open>analyze_hype\<close>) and
  \<^verbatim>\<open>trends_analyzer.py\<close> (the scoring function \<^verbatim>\<open>calculate_hype_from_trends\<close>).

  Python's \<^verbatim>\<open>float\<close> scores and \<^verbatim>\<open>time.time()\<close> stamps are modelled as exact rationals:
  the properties below are about comparisons, \<^verbatim>\<open>min\<close> and sums of a few bounded terms,
  none of which depends on rounding. Strings are \<open>string\<close>, lists of 8-bit characters: a
  character below 128 is the ASCII character, and text beyond ASCII is in some encoding
  that uses the characters from 128 on.
  An exception that leaves a function is a value \<open>Inl e\<close> of the function's result.
\<close>

datatype error =
  Uncaught string  \<comment> \<open>an exception that no \<^verbatim>\<open>except\<close> clause of the function matches; the text names it\<close>
  | IndexError

subsection \<open>Formatting integers, as an f-string does\<close>

definition digit_char :: "nat \<Rightarrow> char" where
  "digit_char d = ''0123456789'' ! d"

fun str_nat :: "nat \<Rightarrow> string" where
  "str_nat n = (if n < 10 then [digit_char n] else str_nat (n div 10) @ [digit_char (n mod 10)])"

declare str_nat.simps [simp del]

definition str_int :: "int \<Rightarrow> string" where
  "str_int i = (if i < 0 then CHR ''-'' # str_nat (nat (- i)) else str_nat (nat i))"

subsection \<open>\<^verbatim>\<open>str.lower()\<close> on ASCII text\<close>

text \<open>
  On a string of ASCII characters \<^verbatim>\<open>str.lower()\<close> replaces each of the letters A to Z by
  its lower-case form and leaves every other character as it is.
\<close>

definition ascii_uppercase :: string where
  "ascii_uppercase = ''ABCDEFGHIJKLMNOPQRSTUVWXYZ''"

definition ascii_lowercase :: string where
  "ascii_lowercase = ''abcdefghijklmnopqrstuvwxyz''"

definition lower_char :: "char \<Rightarrow> char" where
  "lower_char c = (case map_of (zip ascii_uppercase ascii_lowercase) c of Some d \<Rightarrow> d | None \<Rightarrow> c)"

definition ascii_lower :: "string \<Rightarrow> string" where
  "ascii_lower s = map lower_char s"

definition is_ascii :: "string \<Rightarrow> bool" where
  "is_ascii s = list_all (\<lambda>x. \<not> digit7 x) s"

section \<open>main.py\<close>

subsection \<open>Module configuration and the outside world\<close>

text \<open>
  The module reads three environment variables when it is loaded. A variable that is unset
  is \<open>None\<close>; Python treats both \<^verbatim>\<open>None\<close> and the empty string as false.
\<close>

definition truthy :: "string option \<Rightarrow> bool" where
  "truthy v = (case v of None \<Rightarrow> False | Some s \<Rightarrow> s \<noteq> [])"

text \<open>
  What the three services answer. \<open>WikiPage n\<close>: the page was found and has \<open>n\<close> links
  (\<^verbatim>\<open>len(page.links)\<close>). \<open>PageError\<close> and \<open>DisambiguationError\<close> are the two exceptions of the
  \<^verbatim>\<open>wikipedia\<close> package that the Wikipedia block names; the second carries the text of
  \<^verbatim>\<open>e.options\<close>. \<open>WikiOtherException\<close> is any other exception raised by the lookup (a
  connection error or a timeout of the underlying HTTP request, for instance).
\<close>

datatype wiki_outcome =
  WikiPage nat
  | PageError
  | DisambiguationError string
  | WikiOtherException string

text \<open>
  \<open>RedditPosts n\<close>: the search iterator yielded \<open>n\<close> posts. \<open>RedditException\<close>: the search
  raised an \<^verbatim>\<open>Exception\<close>, with the text of \<^verbatim>\<open>str(e)\<close>.
\<close>

datatype reddit_outcome =
  RedditPosts nat
  | RedditException string

text \<open>
  \<open>NewsJson t\<close>: the request succeeded and its body is a JSON object whose \<^verbatim>\<open>totalResults\<close>
  member is the integer \<open>t\<close>, or is absent (\<open>None\<close>). \<open>RequestException\<close>: \<^verbatim>\<open>requests.get\<close> or
  \<^verbatim>\<open>raise_for_status\<close> raised a \<^verbatim>\<open>requests.exceptions.RequestException\<close>. \<open>NewsOtherException\<close>:
  any other exception of the block (a body that is not an object, a \<^verbatim>\<open>totalResults\<close> that is
  not a number).
\<close>

datatype news_outcome =
  NewsJson "int option"
  | RequestException string
  | NewsOtherException string

record env =
  REDDIT_CLIENT_ID :: "string option"
  REDDIT_CLIENT_SECRET :: "string option"
  NEWSAPI_KEY :: "string option"
  wikipedia_page :: "string \<Rightarrow> wiki_outcome"
  reddit_search :: "string \<Rightarrow> reddit_outcome"
  requests_get :: "string \<Rightarrow> news_outcome"
  unicode_lower :: "string \<Rightarrow> string"

text \<open>
  \<^verbatim>\<open>str.lower()\<close> follows the Unicode case mapping, which depends on the characters around
  a letter and is not reproduced here: on a string that is not ASCII it is the function
  \<open>unicode_lower\<close> of the environment, about which nothing is assumed.
\<close>

definition lower :: "env \<Rightarrow> string \<Rightarrow> string" where
  "lower e s = (if is_ascii s then ascii_lower s else unicode_lower e s)"

text \<open>Every call that leaves the process is logged, in order.\<close>

datatype call =
  WikipediaCall string
  | RedditCall string
  | HttpGet string

text \<open>
  The module-level \<^verbatim>\<open>reddit\<close> object: a client when both credentials are set, else \<^verbatim>\<open>None\<close>.
\<close>

definition reddit :: "env \<Rightarrow> (string \<Rightarrow> reddit_outcome) option" where
  "reddit e = (if truthy (REDDIT_CLIENT_ID e) \<and> truthy (REDDIT_CLIENT_SECRET e)
               then Some (reddit_search e) else None)"

subsection \<open>analyze_hype\<close>

text \<open>
  The local variables \<^verbatim>\<open>score\<close>, \<^verbatim>\<open>title\<close> and \<^verbatim>\<open>snippets\<close> are threaded through the three
  blocks as a triple. A block returns the updated triple, or the exception that leaves it,
  together with the calls it issued.
\<close>

type_synonym acc = "rat \<times> string \<times> string list"

type_synonym 'a outcome = "(error + 'a) \<times> call list"

definition wikipedia_block :: "env \<Rightarrow> string \<Rightarrow> acc \<Rightarrow> acc outcome" where
  "wikipedia_block e search_term a =
     (case a of (score, title, snippets) \<Rightarrow>
        (case wikipedia_page e search_term of
           WikiPage view_count \<Rightarrow>
             Inr (score + min (of_nat view_count / 100) 20,
                  ''Wikipedia Data'',
                  snippets @ [''Wikipedia links: '' @ str_nat view_count])
         | PageError \<Rightarrow>
             Inr (score, title, snippets @ [''Wikipedia page not found.''])
         | DisambiguationError options \<Rightarrow>
             Inr (score, title, snippets @ [''Wikipedia disambiguation: '' @ options])
         | WikiOtherException x \<Rightarrow> Inl (Uncaught x),
         [WikipediaCall search_term]))"

definition reddit_block :: "env \<Rightarrow> string \<Rightarrow> acc \<Rightarrow> acc outcome" where
  "reddit_block e search_term a =
     (case a of (score, title, snippets) \<Rightarrow>
        (case reddit e of
           None \<Rightarrow> (Inr (score, title, snippets), [])
         | Some search \<Rightarrow>
             (case search search_term of
                RedditPosts post_count \<Rightarrow>
                  Inr (score + min (of_nat post_count * 2) 30,
                       if post_count > 0 then ''Reddit Data'' else title,
                       snippets @ [''Reddit posts: '' @ str_nat post_count])
              | RedditException x \<Rightarrow>
                  Inr (score, title, snippets @ [''Reddit error: '' @ x]),
              [RedditCall search_term])))"

definition news_url :: "string \<Rightarrow> string \<Rightarrow> string" where
  "news_url search_term key =
     ''https://newsapi.org/v2/everything?q='' @ search_term @ ''&apiKey='' @ key"

definition news_block :: "env \<Rightarrow> string \<Rightarrow> acc \<Rightarrow> acc outcome" where
  "news_block e search_term a =
     (case a of (score, title, snippets) \<Rightarrow>
        (case NEWSAPI_KEY e of
           None \<Rightarrow> (Inr (score, title, snippets), [])
         | Some key \<Rightarrow>
             if key = [] then (Inr (score, title, snippets), [])
             else
               (let url = news_url search_term key in
                (case requests_get e url of
                   NewsJson total_results \<Rightarrow>
                     (let article_count = (case total_results of None \<Rightarrow> 0 | Some t \<Rightarrow> t) in
                      Inr (score + min (of_int article_count / 10) 50,
                           if article_count > 0 then ''News Data'' else title,
                           snippets @ [''News articles: '' @ str_int article_count]))
                 | RequestException x \<Rightarrow>
                     Inr (score, title, snippets @ [''NewsAPI error: '' @ x])
                 | NewsOtherException x \<Rightarrow> Inl (Uncaught x),
                 [HttpGet url]))))"

text \<open>Sequencing: an exception ends the function; the calls made so far stay made.\<close>

definition and_then :: "'a outcome \<Rightarrow> ('a \<Rightarrow> 'b outcome) \<Rightarrow> 'b outcome" where
  "and_then m f =
     (case m of
        (Inl x, cs) \<Rightarrow> (Inl x, cs)
      | (Inr a, cs) \<Rightarrow> (case f a of (r, cs') \<Rightarrow> (r, cs @ cs')))"

definition analyze_hype :: "env \<Rightarrow> string \<Rightarrow> acc outcome" where
  "analyze_hype e search_term =
     and_then
       (and_then (wikipedia_block e search_term (0, ''No Data'', []))
                 (reddit_block e search_term))
       (news_block e search_term)"

subsection \<open>The cache and get_hype\<close>

datatype HypeQuery = HypeQuery (body_query: string)

record HypeResult =
  query :: string
  score :: rat
  title :: string
  snippets :: "string list"

record cache_entry =
  timestamp :: rat
  data :: HypeResult

type_synonym cache = "string \<rightharpoonup> cache_entry"

definition CACHE_DURATION_SECONDS :: rat where
  "CACHE_DURATION_SECONDS = 60 * 15"

text \<open>
  The handler takes the state of the outside world, the reading of \<^verbatim>\<open>time.time()\<close> and the
  module's \<^verbatim>\<open>cache\<close> dictionary; it returns the response (or the exception), the dictionary as
  it leaves it, and the calls it issued. \<open>fetch_new_data\<close> is the part of the handler after
  the cache check: aggregation, then the store.
\<close>

definition fetch_new_data ::
  "env \<Rightarrow> rat \<Rightarrow> cache \<Rightarrow> HypeQuery \<Rightarrow> string \<Rightarrow> (error + HypeResult) \<times> cache \<times> call list" where
  "fetch_new_data e current_time c hype_query search_term =
     (case analyze_hype e search_term of
        (Inl x, cs) \<Rightarrow> (Inl x, c, cs)
      | (Inr (sc, ti, sn), cs) \<Rightarrow>
          (let result_data = \<lparr>query = body_query hype_query, score = sc, title = ti, snippets = sn\<rparr>
           in (Inr result_data,
               c(search_term \<mapsto> \<lparr>timestamp = current_time, data = result_data\<rparr>),
               cs)))"

definition get_hype ::
  "env \<Rightarrow> rat \<Rightarrow> cache \<Rightarrow> HypeQuery \<Rightarrow> (error + HypeResult) \<times> cache \<times> call list" where
  "get_hype e current_time c hype_query =
     (let search_term = lower e (body_query hype_query) in
      (case c search_term of
         Some cached_entry \<Rightarrow>
           if current_time - timestamp cached_entry < CACHE_DURATION_SECONDS
           then (Inr (data cached_entry), c, [])
           else fetch_new_data e current_time (c(search_term := None)) hype_query search_term
       | None \<Rightarrow> fetch_new_data e current_time c hype_query search_term))"

section \<open>\<^verbatim>\<open>trends_analyzer.py\<close>\<close>

text \<open>
  A pandas frame is a list of named columns; the interest frame holds integer readings
  (the \<^verbatim>\<open>isPartial\<close> flags, which the function never reads, are 0 or 1). A frame is
  \<^verbatim>\<open>.empty\<close> when it has no column or no row.
\<close>

type_synonym dataframe = "(string \<times> int list) list"

definition df_empty :: "dataframe \<Rightarrow> bool" where
  "df_empty df = (df = [] \<or> list_ex (\<lambda>col. snd col = []) df)"

text \<open>
  A frame of related queries is its list of rows, each a \<^verbatim>\<open>query\<close> text and a \<^verbatim>\<open>value\<close>.
  The \<^verbatim>\<open>related_queries\<close> dictionary maps \<^verbatim>\<open>'top'\<close> and \<^verbatim>\<open>'rising'\<close> to such a frame or
  to \<^verbatim>\<open>None\<close>; either key may be missing.
\<close>

type_synonym related_frame = "(string \<times> int) list"

record trends =
  interest :: dataframe
  related_queries :: "(string \<times> related_frame option) list"

definition related_snippets :: "(string \<times> related_frame option) list \<Rightarrow> string list" where
  "related_snippets rq =
     (if rq \<noteq> [] then
        (case map_of rq ''top'' of
           Some (Some top_df) \<Rightarrow> map (\<lambda>row. ''Top related: '' @ fst row) (take 2 top_df)
         | _ \<Rightarrow> [])
        @
        (case map_of rq ''rising'' of
           Some (Some rising_df) \<Rightarrow>
             map (\<lambda>row. ''Rising related: '' @ fst row @ '' (+'' @ str_int (snd row) @ ''%)'')
                 (take 3 rising_df)
         | _ \<Rightarrow> [])
      else [])"

text \<open>
  The argument \<^verbatim>\<open>trends_data\<close> is the dictionary returned by \<^verbatim>\<open>get_google_trends_data\<close>,
  or a false value (\<^verbatim>\<open>None\<close>, which that function returns on an error): \<open>None\<close> here.
  \<open>keyword_column\<close> is the first column whose name is not \<^verbatim>\<open>isPartial\<close>, taken with its
  readings; indexing the empty list of such columns with \<^verbatim>\<open>[0]\<close> raises \<^verbatim>\<open>IndexError\<close>, and
  so would \<^verbatim>\<open>.iloc[-1]\<close> on a column without readings. \<open>sc\<close> is the last reading.
\<close>

definition calculate_hype_from_trends :: "trends option \<Rightarrow> error + rat \<times> string \<times> string list" where
  "calculate_hype_from_trends trends_data =
     (case trends_data of
        None \<Rightarrow> Inr (0, ''No Data'', [''Could not retrieve sufficient trend data.''])
      | Some td \<Rightarrow>
          if df_empty (interest td)
          then Inr (0, ''No Data'', [''Could not retrieve sufficient trend data.''])
          else
            (case filter (\<lambda>col. fst col \<noteq> ''isPartial'') (interest td) of
               [] \<Rightarrow> Inl IndexError
             | keyword_column # _ \<Rightarrow>
                 (case rev (snd keyword_column) of
                    [] \<Rightarrow> Inl IndexError
                  | sc # _ \<Rightarrow>
                      (let ti = (if sc > 85 then ''Peak Interest!''
                                 else if sc > 65 then ''High Interest''
                                 else if sc > 40 then ''Moderate Interest''
                                 else if sc > 15 then ''Low Interest''
                                 else ''Minimal Interest'');
                           ti = (if sc = 0 \<and> sum_list (snd keyword_column) > 0
                                 then ''Interest Fading?'' else ti);
                           sn = related_snippets (related_queries td);
                           sn = (if sn = [] then [''No specific related queries found.''] else sn)
                       in Inr (of_int sc, ti, sn)))))"

section \<open>Vocabulary of the specification\<close>

text \<open>
  Two characters are the same ASCII letter when they are equal or one is the upper-case
  form, among A to Z, of the other. Two queries differ only by the case of ASCII letters
  when both are ASCII strings and they are the same letters, position by position.
\<close>

definition same_letter :: "char \<Rightarrow> char \<Rightarrow> bool" where
  "same_letter x y =
     (x = y \<or> (x, y) \<in> set (zip ascii_uppercase ascii_lowercase)
            \<or> (y, x) \<in> set (zip ascii_uppercase ascii_lowercase))"

definition differ_only_by_ascii_case :: "string \<Rightarrow> string \<Rightarrow> bool" where
  "differ_only_by_ascii_case q1 q2 = (is_ascii q1 \<and> is_ascii q2 \<and> list_all2 same_letter q1 q2)"

text \<open>
  \<^verbatim>\<open>str.strip()\<close>: the ASCII white space is the blank and the characters 9 to 13.
\<close>

definition is_space :: "char \<Rightarrow> bool" where
  "is_space x = (x = CHR '' '' \<or> x \<in> set [CHR 0x09, CHR 0x0A, CHR 0x0B, CHR 0x0C, CHR 0x0D])"

definition strip :: "string \<Rightarrow> string" where
  "strip s = rev (dropWhile is_space (rev (dropWhile is_space s)))"

definition differ_only_by_case_or_outer_space :: "string \<Rightarrow> string \<Rightarrow> bool" where
  "differ_only_by_case_or_outer_space q1 q2 = differ_only_by_ascii_case (strip q1) (strip q2)"

text \<open>
  The input that \<^verbatim>\<open>calculate_hype_from_trends\<close> documents is what \<^verbatim>\<open>get_google_trends_data\<close>
  returns: nothing, an empty interest frame, or a frame in which the keyword is a column
  (a column other than \<^verbatim>\<open>isPartial\<close>).
\<close>

definition has_keyword_column :: "dataframe \<Rightarrow> bool" where
  "has_keyword_column df = list_ex (\<lambda>col. fst col \<noteq> ''isPartial'') df"

definition documented_input :: "trends option \<Rightarrow> bool" where
  "documented_input trends_data =
     (case trends_data of
        None \<Rightarrow> True
      | Some td \<Rightarrow> df_empty (interest td) \<or> has_keyword_column (interest td))"

text \<open>
  The title of the trend score in the words of the specification: the fading case first,
  then the buckets from the top.
\<close>

definition spec_trend_title :: "int \<Rightarrow> int \<Rightarrow> string" where
  "spec_trend_title latest window_sum =
     (if latest = 0 \<and> window_sum > 0 then ''Interest Fading?''
      else if latest > 85 then ''Peak Interest!''
      else if latest > 65 then ''High Interest''
      else if latest > 40 then ''Moderate Interest''
      else if latest > 15 then ''Low Interest''
      else ''Minimal Interest'')"

section \<open>Concrete inputs\<close>

text \<open>
  The queries of these inputs are ASCII, so the \<open>unicode_lower\<close> of the environments is
  never applied; it is the identity in all of them.
\<close>

text \<open>
  The scenario of the specification: the page has 4500 links, the Reddit credentials are
  unset, the news index reports 230 articles.
\<close>

definition scenario_env :: env where
  "scenario_env =
     \<lparr>REDDIT_CLIENT_ID = None, REDDIT_CLIENT_SECRET = None, NEWSAPI_KEY = Some ''k'',
      wikipedia_page = (\<lambda>_. WikiPage 4500),
      reddit_search = (\<lambda>_. RedditException ''unused''),
      requests_get = (\<lambda>_. NewsJson (Some 230)),
      unicode_lower = (\<lambda>s. s)\<rparr>"

text \<open>No credential is set and the page does not exist.\<close>

definition unconfigured_env :: env where
  "unconfigured_env =
     \<lparr>REDDIT_CLIENT_ID = None, REDDIT_CLIENT_SECRET = None, NEWSAPI_KEY = None,
      wikipedia_page = (\<lambda>_. PageError),
      reddit_search = (\<lambda>_. RedditException ''unused''),
      requests_get = (\<lambda>_. RequestException ''unused''),
      unicode_lower = (\<lambda>s. s)\<rparr>"

text \<open>
  All credentials are set; the Wikipedia lookup cannot connect, the two other services
  answer.
\<close>

definition wiki_down_env :: env where
  "wiki_down_env =
     \<lparr>REDDIT_CLIENT_ID = Some ''id'', REDDIT_CLIENT_SECRET = Some ''secret'',
      NEWSAPI_KEY = Some ''k'',
      wikipedia_page = (\<lambda>_. WikiOtherException ''requests.exceptions.ConnectionError''),
      reddit_search = (\<lambda>_. RedditPosts 3),
      requests_get = (\<lambda>_. NewsJson (Some 230)),
      unicode_lower = (\<lambda>s. s)\<rparr>"

text \<open>All credentials are set and the network is down: every service fails to connect.\<close>

definition network_down_env :: env where
  "network_down_env =
     \<lparr>REDDIT_CLIENT_ID = Some ''id'', REDDIT_CLIENT_SECRET = Some ''secret'',
      NEWSAPI_KEY = Some ''k'',
      wikipedia_page = (\<lambda>_. WikiOtherException ''requests.exceptions.ConnectionError''),
      reddit_search = (\<lambda>_. RedditException ''connection failed''),
      requests_get = (\<lambda>_. RequestException ''connection failed''),
      unicode_lower = (\<lambda>s. s)\<rparr>"

text \<open>Every service answers with a large count.\<close>

definition busy_env :: env where
  "busy_env =
     \<lparr>REDDIT_CLIENT_ID = Some ''id'', REDDIT_CLIENT_SECRET = Some ''secret'',
      NEWSAPI_KEY = Some ''k'',
      wikipedia_page = (\<lambda>_. WikiPage 100000),
      reddit_search = (\<lambda>_. RedditPosts 10),
      requests_get = (\<lambda>_. NewsJson (Some 123456)),
      unicode_lower = (\<lambda>s. s)\<rparr>"

text \<open>A cache with one entry, stored for \<^verbatim>\<open>python\<close> at time 1000.\<close>

definition stored_result :: HypeResult where
  "stored_result = \<lparr>query = ''Python'', score = 7, title = ''Reddit Data'', snippets = [''Reddit posts: 3'']\<rparr>"

definition one_entry_cache :: cache where
  "one_entry_cache = [''python'' \<mapsto> \<lparr>timestamp = 1000, data = stored_result\<rparr>]"

text \<open>
  Trend data whose latest reading is 0 after readings that sum to 340, and trend data with
  a reading of 90 and related queries.
\<close>

definition fading_trends :: trends where
  "fading_trends =
     \<lparr>interest = [(''python'', [100, 240, 0]), (''isPartial'', [0, 0, 1])],
      related_queries = []\<rparr>"

definition peak_trends :: trends where
  "peak_trends =
     \<lparr>interest = [(''python'', [40, 90]), (''isPartial'', [0, 1])],
      related_queries =
        [(''top'', Some [(''python download'', 100), (''python list'', 80), (''snake'', 5)]),
         (''rising'', Some [(''python 3.13'', 250)])]\<rparr>"

section \<open>Properties of analyze_hype\<close>

subsection \<open>Auxiliary facts\<close>

lemmas block_defs = wikipedia_block_def reddit_block_def news_block_def and_then_def
  reddit_def truthy_def news_url_def

lemma calls_wikipedia_block: "snd (wikipedia_block e q a) = [WikipediaCall q]"
  by (simp add: wikipedia_block_def split: prod.splits)

lemma calls_reddit_block:
  "snd (reddit_block e q a) = (if reddit e = None then [] else [RedditCall q])"
  by (simp add: reddit_block_def split: prod.splits option.splits)

lemma calls_news_block:
  "snd (news_block e q a) =
     (case NEWSAPI_KEY e of None \<Rightarrow> [] | Some key \<Rightarrow> if key = [] then [] else [HttpGet (news_url q key)])"
  by (simp add: news_block_def Let_def split: prod.splits option.splits)

lemma calls_and_then:
  "set (snd (and_then m f)) \<subseteq> set (snd m) \<union> (\<Union>a. set (snd (f a)))"
proof (cases m)
  case (Pair r cs)
  show ?thesis
  proof (cases r)
    case (Inl x)
    with Pair show ?thesis by (simp add: and_then_def)
  next
    case (Inr a)
    obtain r' cs' where fa: "f a = (r', cs')" by (cases "f a")
    have "set cs' \<subseteq> (\<Union>a. set (snd (f a)))"
      using fa by (metis UN_upper UNIV_I snd_conv)
    with Pair Inr fa show ?thesis by (auto simp add: and_then_def)
  qed
qed

subsection \<open>The scenario of the specification\<close>

text \<open>
  Claim C7, as the specification states it, expects three snippets for the scenario (4500
  links, Reddit disabled, 230 articles), one of them for the disabled adapter. The function
  returns two: a disabled adapter adds none.
\<close>

theorem scenario_three_snippets_counterexample:
  "fst (analyze_hype scenario_env ''python'') =
     Inr (43, ''News Data'', [''Wikipedia links: 4500'', ''News articles: 230''])
   \<and> length [''Wikipedia links: 4500'', ''News articles: 230''] \<noteq> (3::nat)"
  by (simp add: analyze_hype_def block_defs scenario_env_def str_nat.simps str_int_def digit_char_def)

text \<open>
  Claim C7, amended: with 4500 links, the Reddit credentials unset and 230 articles,
  \<^verbatim>\<open>analyze_hype\<close> returns the score 43 = min(45, 20) + min(23, 50), the title
  \<^verbatim>\<open>News Data\<close> and exactly two snippets, one of the Wikipedia block and one of the news
  block; it calls Wikipedia and the news index and nothing else.
\<close>

theorem scenario_result:
  assumes "wikipedia_page e q = WikiPage 4500"
    and "REDDIT_CLIENT_ID e = None \<or> REDDIT_CLIENT_SECRET e = None"
    and "NEWSAPI_KEY e = Some key" and "key \<noteq> []"
    and "requests_get e (news_url q key) = NewsJson (Some 230)"
  shows "analyze_hype e q =
           (Inr (43, ''News Data'', [''Wikipedia links: 4500'', ''News articles: 230'']),
            [WikipediaCall q, HttpGet (news_url q key)])"
  using assms
  by (auto simp add: analyze_hype_def wikipedia_block_def reddit_block_def news_block_def and_then_def
      reddit_def truthy_def str_nat.simps str_int_def digit_char_def)

theorem scenario_result_witness:
  "analyze_hype scenario_env ''python'' =
     (Inr (43, ''News Data'', [''Wikipedia links: 4500'', ''News articles: 230'']),
      [WikipediaCall ''python'', HttpGet ''https://newsapi.org/v2/everything?q=python&apiKey=k''])"
  using scenario_result [of scenario_env "''python''" "''k''"]
  by (simp add: scenario_env_def news_url_def)

subsection \<open>Adapters without credentials\<close>

text \<open>
  Claim C3, as the specification states it, expects one explanatory snippet for each
  adapter whose credentials are absent. With no credential set and no Wikipedia page, the
  Reddit block and the news block return the variables as they found them, and the
  function returns the one snippet of the Wikipedia block.
\<close>

theorem disabled_snippet_counterexample:
  "reddit_block unconfigured_env ''python'' (0, ''No Data'', [''Wikipedia page not found.''])
     = (Inr (0, ''No Data'', [''Wikipedia page not found.'']), [])
   \<and> news_block unconfigured_env ''python'' (0, ''No Data'', [''Wikipedia page not found.''])
     = (Inr (0, ''No Data'', [''Wikipedia page not found.'']), [])
   \<and> analyze_hype unconfigured_env ''python''
     = (Inr (0, ''No Data'', [''Wikipedia page not found.'']), [WikipediaCall ''python''])"
  by (simp add: analyze_hype_def block_defs unconfigured_env_def)

text \<open>
  Claim C3, amended: when the Reddit client id or secret is missing, the Reddit block does
  not raise, issues no call and leaves score, title and snippets unchanged, and no run of
  \<^verbatim>\<open>analyze_hype\<close> calls Reddit; when the NewsAPI key is missing, the same holds of the
  news block and of HTTP requests. A skipped adapter appends no snippet.
\<close>

theorem disabled_adapter_skipped:
  "(\<not> (truthy (REDDIT_CLIENT_ID e) \<and> truthy (REDDIT_CLIENT_SECRET e)) \<longrightarrow>
      reddit_block e q a = (Inr a, []) \<and> RedditCall s \<notin> set (snd (analyze_hype e q)))
   \<and> (\<not> truthy (NEWSAPI_KEY e) \<longrightarrow>
      news_block e q a = (Inr a, []) \<and> HttpGet u \<notin> set (snd (analyze_hype e q)))"
proof (intro conjI impI)
  assume off: "\<not> (truthy (REDDIT_CLIENT_ID e) \<and> truthy (REDDIT_CLIENT_SECRET e))"
  then have none: "reddit e = None" by (simp add: reddit_def)
  then show "reddit_block e q a = (Inr a, [])"
    by (simp add: reddit_block_def split: prod.splits)
  have "set (snd (analyze_hype e q)) \<subseteq>
          {WikipediaCall q} \<union> (case NEWSAPI_KEY e of None \<Rightarrow> {} | Some key \<Rightarrow> {HttpGet (news_url q key)})"
    unfolding analyze_hype_def
    using calls_and_then [of "and_then (wikipedia_block e q (0, ''No Data'', [])) (reddit_block e q)" "news_block e q"]
      calls_and_then [of "wikipedia_block e q (0, ''No Data'', [])" "reddit_block e q"]
    by (auto simp add: calls_wikipedia_block calls_reddit_block calls_news_block none split: option.splits if_splits)
  then show "RedditCall s \<notin> set (snd (analyze_hype e q))"
    by (auto split: option.splits)
next
  assume off: "\<not> truthy (NEWSAPI_KEY e)"
  then have key: "NEWSAPI_KEY e = None \<or> NEWSAPI_KEY e = Some []"
    by (auto simp add: truthy_def split: option.splits)
  then show "news_block e q a = (Inr a, [])"
    by (auto simp add: news_block_def split: prod.splits)
  have "set (snd (analyze_hype e q)) \<subseteq> {WikipediaCall q, RedditCall q}"
    unfolding analyze_hype_def
    using calls_and_then [of "and_then (wikipedia_block e q (0, ''No Data'', [])) (reddit_block e q)" "news_block e q"]
      calls_and_then [of "wikipedia_block e q (0, ''No Data'', [])" "reddit_block e q"] key
    by (auto simp add: calls_wikipedia_block calls_reddit_block calls_news_block split: option.splits if_splits)
  then show "HttpGet u \<notin> set (snd (analyze_hype e q))"
    by auto
qed

theorem disabled_adapter_skipped_witness:
  "\<not> (truthy (REDDIT_CLIENT_ID unconfigured_env) \<and> truthy (REDDIT_CLIENT_SECRET unconfigured_env))
   \<and> \<not> truthy (NEWSAPI_KEY unconfigured_env)
   \<and> reddit_block unconfigured_env ''python'' (0, ''No Data'', []) = (Inr (0, ''No Data'', []), [])
   \<and> news_block unconfigured_env ''python'' (0, ''No Data'', []) = (Inr (0, ''No Data'', []), [])
   \<and> RedditCall ''python'' \<notin> set (snd (analyze_hype unconfigured_env ''python''))
   \<and> HttpGet ''x'' \<notin> set (snd (analyze_hype unconfigured_env ''python''))"
  using disabled_adapter_skipped [of unconfigured_env "''python''" "(0, ''No Data'', [])" "''python''" "''x''"]
  by (simp add: unconfigured_env_def truthy_def)

subsection \<open>Failures of the adapters\<close>

text \<open>
  Claim C1 says that no error raised inside an adapter block leaves \<^verbatim>\<open>analyze_hype\<close>. The
  Wikipedia block catches \<^verbatim>\<open>PageError\<close> and \<^verbatim>\<open>DisambiguationError\<close> only (the Reddit block
  catches every \<^verbatim>\<open>Exception\<close>): when the lookup cannot connect, the exception leaves the
  function, and the two other adapters are never called.
\<close>

theorem wikipedia_connection_error_propagates:
  "analyze_hype wiki_down_env ''python'' =
     (Inl (Uncaught ''requests.exceptions.ConnectionError''), [WikipediaCall ''python''])"
  by (simp add: analyze_hype_def block_defs wiki_down_env_def)

text \<open>
  Claim C4 says that when every attempted adapter fails the function returns the score 0,
  the title \<^verbatim>\<open>No Data\<close> and one snippet per adapter, and never raises. With the network
  down every adapter fails, and the function raises at the Wikipedia lookup instead.
\<close>

theorem all_adapters_fail_raises:
  "analyze_hype network_down_env ''python'' =
     (Inl (Uncaught ''requests.exceptions.ConnectionError''), [WikipediaCall ''python''])"
  by (simp add: analyze_hype_def block_defs network_down_env_def)

text \<open>
  When every failure is one that its block catches, the function does return the score 0,
  the title \<^verbatim>\<open>No Data\<close> and one snippet per attempted adapter.
\<close>

lemma caught_failures_give_no_data:
  assumes "wikipedia_page e q = PageError \<or> (\<exists>opts. wikipedia_page e q = DisambiguationError opts)"
    and "\<forall>search. reddit e = Some search \<longrightarrow> (\<exists>x. search q = RedditException x)"
    and "\<forall>key. NEWSAPI_KEY e = Some key \<and> key \<noteq> [] \<longrightarrow> (\<exists>x. requests_get e (news_url q key) = RequestException x)"
  shows "\<exists>sn cs. analyze_hype e q = (Inr (0, ''No Data'', sn), cs) \<and> length sn = length cs \<and> sn \<noteq> []"
  using assms
  by (auto simp add: analyze_hype_def wikipedia_block_def reddit_block_def news_block_def
      and_then_def Let_def split: option.splits)

subsection \<open>Clamped contributions and the total score\<close>

lemma and_then_Inr:
  assumes "and_then m f = (Inr b, cs)"
  obtains a cs1 cs2 where "m = (Inr a, cs1)" and "f a = (Inr b, cs2)" and "cs = cs1 @ cs2"
  using assms
  by (auto simp add: and_then_def split: prod.splits sum.splits)

lemma wikipedia_block_score:
  assumes "wikipedia_block e q (s, ti, sn) = (Inr (s', ti', sn'), cs)"
  shows "s \<le> s' \<and> s' \<le> s + 20"
  using assms
  by (auto simp add: wikipedia_block_def split: wiki_outcome.splits)

lemma reddit_block_score:
  assumes "reddit_block e q (s, ti, sn) = (Inr (s', ti', sn'), cs)"
  shows "s \<le> s' \<and> s' \<le> s + 30"
  using assms
  by (auto simp add: reddit_block_def split: option.splits reddit_outcome.splits)

lemma news_block_score:
  assumes "news_block e q (s, ti, sn) = (Inr (s', ti', sn'), cs)"
    and "\<forall>u a. requests_get e u = NewsJson (Some a) \<longrightarrow> 0 \<le> a"
  shows "s \<le> s' \<and> s' \<le> s + 50"
  using assms
  by (auto simp add: news_block_def Let_def split: option.splits if_splits news_outcome.splits)

lemma wikipedia_block_returns:
  assumes "\<forall>x. wikipedia_page e q \<noteq> WikiOtherException x"
  shows "\<exists>r. fst (wikipedia_block e q a) = Inr r"
  using assms
  by (cases "wikipedia_page e q") (auto simp add: wikipedia_block_def split: prod.splits)

lemma reddit_block_returns: "\<exists>r. fst (reddit_block e q a) = Inr r"
  by (auto simp add: reddit_block_def split: prod.splits option.splits reddit_outcome.splits)

lemma news_block_returns:
  assumes "\<forall>u x. requests_get e u \<noteq> NewsOtherException x"
  shows "\<exists>r. fst (news_block e q a) = Inr r"
proof -
  obtain s ti sn where a: "a = (s, ti, sn)" by (cases a)
  show ?thesis
  proof (cases "NEWSAPI_KEY e")
    case None
    then show ?thesis by (simp add: a news_block_def)
  next
    case (Some key)
    show ?thesis
    proof (cases "requests_get e (news_url q key)")
      case (NewsOtherException x)
      with assms show ?thesis by blast
    qed (simp_all add: a Some news_block_def Let_def)
  qed
qed

lemma and_then_returns:
  assumes "\<exists>r. fst m = Inr r" and "\<And>a. \<exists>r. fst (f a) = Inr r"
  shows "\<exists>r. fst (and_then m f) = Inr r"
proof -
  obtain a cs where m: "m = (Inr a, cs)"
    using assms(1) by (cases m) auto
  obtain r cs' where "f a = (Inr r, cs')"
    using assms(2) [of a] by (cases "f a") auto
  with m show ?thesis by (simp add: and_then_def)
qed

lemma analyze_hype_score_range:
  assumes nonneg: "\<forall>u a. requests_get e u = NewsJson (Some a) \<longrightarrow> 0 \<le> a"
    and run: "analyze_hype e q = (Inr (s, ti, sn), cs)"
  shows "0 \<le> s \<and> s \<le> 100"
proof -
  from run obtain a2 cs12 cs3 where
    two: "and_then (wikipedia_block e q (0, ''No Data'', [])) (reddit_block e q) = (Inr a2, cs12)"
    and three: "news_block e q a2 = (Inr (s, ti, sn), cs3)"
    unfolding analyze_hype_def by (rule and_then_Inr)
  from two obtain a1 cs1 cs2 where
    one: "wikipedia_block e q (0, ''No Data'', []) = (Inr a1, cs1)"
    and two': "reddit_block e q a1 = (Inr a2, cs2)"
    by (rule and_then_Inr)
  obtain s1 t1 n1 where a1: "a1 = (s1, t1, n1)" by (cases a1)
  obtain s2 t2 n2 where a2: "a2 = (s2, t2, n2)" by (cases a2)
  have "0 \<le> s1 \<and> s1 \<le> 0 + 20"
    using one unfolding a1 by (rule wikipedia_block_score)
  moreover have "s1 \<le> s2 \<and> s2 \<le> s1 + 30"
    using two' unfolding a1 a2 by (rule reddit_block_score)
  moreover have "s2 \<le> s \<and> s \<le> s2 + 50"
    using three nonneg unfolding a2 by (rule news_block_score)
  ultimately show ?thesis by linarith
qed

lemma analyze_hype_returns:
  assumes "\<forall>x. wikipedia_page e q \<noteq> WikiOtherException x"
    and "\<forall>u x. requests_get e u \<noteq> NewsOtherException x"
  shows "\<exists>r. fst (analyze_hype e q) = Inr r"
  unfolding analyze_hype_def
  by (intro and_then_returns wikipedia_block_returns reddit_block_returns news_block_returns assms)



text \<open>
  Claim C9: when no article count is negative, every score that \<^verbatim>\<open>analyze_hype\<close> returns
  lies between 0 and 100; and the function does return whenever neither the Wikipedia
  lookup nor the news request raises an exception that its block does not catch.
\<close>

theorem total_score_bounded:
  assumes "\<forall>u a. requests_get e u = NewsJson (Some a) \<longrightarrow> 0 \<le> a"
  shows "(\<forall>s ti sn cs. analyze_hype e q = (Inr (s, ti, sn), cs) \<longrightarrow> 0 \<le> s \<and> s \<le> 100)
       \<and> ((\<forall>x. wikipedia_page e q \<noteq> WikiOtherException x)
            \<and> (\<forall>u x. requests_get e u \<noteq> NewsOtherException x)
          \<longrightarrow> (\<exists>r. fst (analyze_hype e q) = Inr r))"
  using assms analyze_hype_score_range [of e q] analyze_hype_returns [of e q]
  by blast

theorem total_score_bounded_witness:
  "\<not> (\<exists>u a. requests_get busy_env u = NewsJson (Some a) \<and> a < 0)
   \<and> analyze_hype busy_env ''python'' =
       (Inr (90, ''News Data'', [''Wikipedia links: 100000'', ''Reddit posts: 10'', ''News articles: 123456'']),
        [WikipediaCall ''python'', RedditCall ''python'',
         HttpGet ''https://newsapi.org/v2/everything?q=python&apiKey=k''])
   \<and> (0::rat) \<le> 90 \<and> (90::rat) \<le> 100"
proof -
  have h: "\<forall>u a. requests_get busy_env u = NewsJson (Some a) \<longrightarrow> 0 \<le> a"
    by (simp add: busy_env_def)
  have h': "\<not> (\<exists>u a. requests_get busy_env u = NewsJson (Some a) \<and> a < 0)"
    by (simp add: busy_env_def)
  have run: "analyze_hype busy_env ''python'' =
       (Inr (90, ''News Data'', [''Wikipedia links: 100000'', ''Reddit posts: 10'', ''News articles: 123456'']),
        [WikipediaCall ''python'', RedditCall ''python'',
         HttpGet ''https://newsapi.org/v2/everything?q=python&apiKey=k''])"
    by (simp add: analyze_hype_def block_defs busy_env_def str_nat.simps str_int_def digit_char_def)
  from total_score_bounded [OF h, of "''python''"] run
  have "(0::rat) \<le> 90 \<and> (90::rat) \<le> 100" by blast
  with h' run show ?thesis by blast
qed

section \<open>Properties of get_hype\<close>

subsection \<open>The cache key\<close>

text \<open>The ASCII strings are those whose characters are all below 128.\<close>

lemma ascii_char_below_128: "\<not> digit7 x \<longleftrightarrow> (of_char x :: nat) < 128"
  by (cases x) (simp add: of_char_def horner_sum_eq_sum of_bool_def)

lemma is_ascii_iff: "is_ascii s \<longleftrightarrow> (\<forall>x \<in> set s. (of_char x :: nat) < 128)"
  by (simp add: is_ascii_def list_all_iff ascii_char_below_128)

lemma distinct_ascii_uppercase: "distinct (map fst (zip ascii_uppercase ascii_lowercase))"
  by (simp add: ascii_uppercase_def ascii_lowercase_def)

lemma ascii_lowercase_not_upper: "l \<in> set ascii_lowercase \<Longrightarrow> l \<notin> set ascii_uppercase"
  by (auto simp add: ascii_uppercase_def ascii_lowercase_def)

lemma lower_char_upper:
  assumes "(u, l) \<in> set (zip ascii_uppercase ascii_lowercase)"
  shows "lower_char u = l"
proof -
  have "map_of (zip ascii_uppercase ascii_lowercase) u = Some l"
    using assms distinct_ascii_uppercase by (simp only: map_of_eq_Some_iff)
  then show ?thesis by (simp add: lower_char_def)
qed

lemma lower_char_lower:
  assumes "(u, l) \<in> set (zip ascii_uppercase ascii_lowercase)"
  shows "lower_char l = l"
proof -
  have "l \<in> set ascii_lowercase"
    using assms by (rule set_zip_rightD)
  then have "l \<notin> set ascii_uppercase"
    by (rule ascii_lowercase_not_upper)
  then have "l \<notin> fst ` set (zip ascii_uppercase ascii_lowercase)"
    by (auto dest: set_zip_leftD)
  then have "map_of (zip ascii_uppercase ascii_lowercase) l = None"
    by (simp add: map_of_eq_None_iff)
  then show ?thesis by (simp add: lower_char_def)
qed

lemma lower_char_same_letter: "same_letter x y \<Longrightarrow> lower_char x = lower_char y"
  unfolding same_letter_def
  by (auto simp add: lower_char_upper lower_char_lower)

lemma ascii_lower_same_letters: "list_all2 same_letter q1 q2 \<Longrightarrow> ascii_lower q1 = ascii_lower q2"
  unfolding ascii_lower_def
  by (induction q1 q2 rule: list_all2_induct) (simp_all add: lower_char_same_letter)

lemma lower_differ_only_by_ascii_case:
  "differ_only_by_ascii_case q1 q2 \<Longrightarrow> lower e q1 = lower e q2"
  by (simp add: differ_only_by_ascii_case_def lower_def ascii_lower_same_letters)

text \<open>
  Claim C2, as the specification states it, covers queries that differ by leading or
  trailing white space as well. The handler lower-cases the query and does not strip it:
  with an entry cached for \<^verbatim>\<open>python\<close>, the query \<^verbatim>\<open>python\<close> is served from the cache
  and the query with a trailing blank has another key and calls the adapters.
\<close>

theorem trailing_space_counterexample:
  "differ_only_by_case_or_outer_space ''python '' ''python''
   \<and> lower scenario_env (body_query (HypeQuery ''python ''))
       \<noteq> lower scenario_env (body_query (HypeQuery ''python''))
   \<and> snd (snd (get_hype scenario_env 1200 one_entry_cache (HypeQuery ''python''))) = []
   \<and> snd (snd (get_hype scenario_env 1200 one_entry_cache (HypeQuery ''python '')))
       = [WikipediaCall ''python '', HttpGet ''https://newsapi.org/v2/everything?q=python &apiKey=k'']"
  by (simp add: differ_only_by_case_or_outer_space_def differ_only_by_ascii_case_def strip_def
      is_space_def is_ascii_def same_letter_def lower_def ascii_lower_def lower_char_def
      ascii_uppercase_def ascii_lowercase_def
      get_hype_def fetch_new_data_def Let_def one_entry_cache_def CACHE_DURATION_SECONDS_def
      analyze_hype_def block_defs scenario_env_def str_nat.simps str_int_def digit_char_def)

text \<open>
  Claim C2, amended: two ASCII queries that differ only by the case of the letters A to Z
  have the same cache key; from the same cache at the same time the handler issues the
  same adapter calls for both and leaves a cache with the same keys. Nothing is stated
  about white space, which is part of the key, nor about letters beyond ASCII, whose
  lower-casing is left to the runtime.
\<close>

theorem case_insensitive_cache_key:
  assumes "differ_only_by_ascii_case q1 q2"
  shows "lower e (body_query (HypeQuery q1)) = lower e (body_query (HypeQuery q2))
         \<and> snd (snd (get_hype e t c (HypeQuery q1))) = snd (snd (get_hype e t c (HypeQuery q2)))
         \<and> dom (fst (snd (get_hype e t c (HypeQuery q1)))) = dom (fst (snd (get_hype e t c (HypeQuery q2))))"
proof -
  have k: "lower e q1 = lower e q2"
    using assms by (rule lower_differ_only_by_ascii_case)
  show ?thesis
    by (auto simp add: k get_hype_def fetch_new_data_def Let_def split: option.splits prod.splits sum.splits)
qed

theorem case_insensitive_cache_key_witness:
  "differ_only_by_ascii_case ''PyThon'' ''python''
   \<and> lower scenario_env (body_query (HypeQuery ''PyThon'')) = ''python''
   \<and> lower scenario_env (body_query (HypeQuery ''python'')) = ''python''
   \<and> snd (snd (get_hype scenario_env 1900 one_entry_cache (HypeQuery ''python'')))
       = [WikipediaCall ''python'', HttpGet ''https://newsapi.org/v2/everything?q=python&apiKey=k'']
   \<and> snd (snd (get_hype scenario_env 1900 one_entry_cache (HypeQuery ''PyThon'')))
       = [WikipediaCall ''python'', HttpGet ''https://newsapi.org/v2/everything?q=python&apiKey=k'']
   \<and> dom (fst (snd (get_hype scenario_env 1900 one_entry_cache (HypeQuery ''PyThon''))))
       = dom (fst (snd (get_hype scenario_env 1900 one_entry_cache (HypeQuery ''python''))))"
proof -
  have h: "differ_only_by_ascii_case ''PyThon'' ''python''"
    by (simp add: differ_only_by_ascii_case_def is_ascii_def same_letter_def
        ascii_uppercase_def ascii_lowercase_def)
  have k: "lower e ''python'' = ''python''" for e
    by (simp add: lower_def is_ascii_def ascii_lower_def lower_char_def
        ascii_uppercase_def ascii_lowercase_def)
  have run: "snd (snd (get_hype scenario_env 1900 one_entry_cache (HypeQuery ''python'')))
       = [WikipediaCall ''python'', HttpGet ''https://newsapi.org/v2/everything?q=python&apiKey=k'']"
    by (simp add: k get_hype_def fetch_new_data_def Let_def one_entry_cache_def
        CACHE_DURATION_SECONDS_def analyze_hype_def block_defs scenario_env_def
        str_nat.simps str_int_def digit_char_def)
  note same = case_insensitive_cache_key [OF h, of scenario_env 1900 one_entry_cache]
  from same k have k': "lower scenario_env (body_query (HypeQuery ''PyThon'')) = ''python''"
    by simp
  from same run have run': "snd (snd (get_hype scenario_env 1900 one_entry_cache (HypeQuery ''PyThon'')))
       = [WikipediaCall ''python'', HttpGet ''https://newsapi.org/v2/everything?q=python&apiKey=k'']"
    by simp
  from h k k' run run' same show ?thesis by simp
qed

subsection \<open>Freshness\<close>

text \<open>
  Claim C5: when the cache holds an entry for the lower-cased query, a request less than
  900 seconds (15 minutes) after the entry's time stamp returns the stored data, leaves
  the cache as it is and calls no adapter. Otherwise the handler deletes the entry and
  runs the aggregation: the calls are those of \<^verbatim>\<open>analyze_hype\<close>; when it returns, the new
  result is returned and stored under the same key with the request's time; when it
  raises, the exception leaves the handler and the entry stays deleted.
\<close>

theorem cache_hit_and_expiry:
  assumes "c (lower e (body_query hq)) = Some entry"
  shows "(t - timestamp entry < 900 \<longrightarrow> get_hype e t c hq = (Inr (data entry), c, []))
       \<and> (\<not> t - timestamp entry < 900 \<longrightarrow>
            (\<forall>sc ti sn cs. analyze_hype e (lower e (body_query hq)) = (Inr (sc, ti, sn), cs) \<longrightarrow>
               get_hype e t c hq =
                 (Inr \<lparr>query = body_query hq, score = sc, title = ti, snippets = sn\<rparr>,
                  c(lower e (body_query hq) \<mapsto>
                      \<lparr>timestamp = t,
                       data = \<lparr>query = body_query hq, score = sc, title = ti, snippets = sn\<rparr>\<rparr>),
                  cs))
          \<and> (\<forall>x cs. analyze_hype e (lower e (body_query hq)) = (Inl x, cs) \<longrightarrow>
               get_hype e t c hq = (Inl x, c(lower e (body_query hq) := None), cs)))"
  using assms
  by (simp add: get_hype_def fetch_new_data_def Let_def CACHE_DURATION_SECONDS_def)

theorem cache_hit_and_expiry_witness:
  "one_entry_cache (lower scenario_env (body_query (HypeQuery ''PYTHON'')))
        = Some \<lparr>timestamp = 1000, data = stored_result\<rparr>
   \<and> one_entry_cache (lower wiki_down_env (body_query (HypeQuery ''PYTHON'')))
        = Some \<lparr>timestamp = 1000, data = stored_result\<rparr>
   \<and> get_hype scenario_env 1899 one_entry_cache (HypeQuery ''PYTHON'')
        = (Inr stored_result, one_entry_cache, [])
   \<and> get_hype scenario_env 1900 one_entry_cache (HypeQuery ''PYTHON'')
        = (Inr \<lparr>query = ''PYTHON'', score = 43, title = ''News Data'',
                 snippets = [''Wikipedia links: 4500'', ''News articles: 230'']\<rparr>,
           one_entry_cache(''python'' \<mapsto>
              \<lparr>timestamp = 1900,
               data = \<lparr>query = ''PYTHON'', score = 43, title = ''News Data'',
                        snippets = [''Wikipedia links: 4500'', ''News articles: 230'']\<rparr>\<rparr>),
           [WikipediaCall ''python'', HttpGet ''https://newsapi.org/v2/everything?q=python&apiKey=k''])
   \<and> get_hype wiki_down_env 1900 one_entry_cache (HypeQuery ''PYTHON'')
        = (Inl (Uncaught ''requests.exceptions.ConnectionError''), one_entry_cache(''python'' := None),
           [WikipediaCall ''python''])"
proof -
  have k: "lower e ''PYTHON'' = ''python''" for e
    by (simp add: lower_def is_ascii_def ascii_lower_def lower_char_def
        ascii_uppercase_def ascii_lowercase_def)
  have h: "one_entry_cache (lower e (body_query (HypeQuery ''PYTHON'')))
        = Some \<lparr>timestamp = 1000, data = stored_result\<rparr>" for e
    by (simp add: k one_entry_cache_def)
  have a1: "analyze_hype scenario_env ''python'' =
     (Inr (43, ''News Data'', [''Wikipedia links: 4500'', ''News articles: 230'']),
      [WikipediaCall ''python'', HttpGet ''https://newsapi.org/v2/everything?q=python&apiKey=k''])"
    by (simp add: analyze_hype_def block_defs scenario_env_def str_nat.simps str_int_def digit_char_def)
  have a2: "analyze_hype wiki_down_env ''python'' =
     (Inl (Uncaught ''requests.exceptions.ConnectionError''), [WikipediaCall ''python''])"
    by (simp add: analyze_hype_def block_defs wiki_down_env_def)
  show ?thesis
    using h [of scenario_env] h [of wiki_down_env]
      cache_hit_and_expiry [where c = one_entry_cache and hq = "HypeQuery ''PYTHON''"
        and entry = "\<lparr>timestamp = 1000, data = stored_result\<rparr>" and t = 1899 and e = scenario_env]
      cache_hit_and_expiry [where c = one_entry_cache and hq = "HypeQuery ''PYTHON''"
        and entry = "\<lparr>timestamp = 1000, data = stored_result\<rparr>" and t = 1900 and e = scenario_env]
      cache_hit_and_expiry [where c = one_entry_cache and hq = "HypeQuery ''PYTHON''"
        and entry = "\<lparr>timestamp = 1000, data = stored_result\<rparr>" and t = 1900 and e = wiki_down_env]
    by (simp add: k a1 a2)
qed

section \<open>Properties of \<^verbatim>\<open>calculate_hype_from_trends\<close>\<close>

lemma keyword_values_nonempty:
  assumes "\<not> df_empty df" and "filter P df = (name, vals) # rest"
  shows "vals \<noteq> []"
proof -
  have "(name, vals) \<in> set (filter P df)"
    using assms(2) by simp
  then have "(name, vals) \<in> set df" by simp
  with assms(1) show ?thesis
    by (auto simp add: df_empty_def list_ex_iff)
qed

lemma rev_last_first: "vals \<noteq> [] \<Longrightarrow> \<exists>xs. rev vals = last vals # xs"
  by (cases vals rule: rev_cases) simp_all

text \<open>
  Claim C8: for trend data with a non-empty interest frame, whose first column other than
  \<^verbatim>\<open>isPartial\<close> holds the readings, the score is the latest reading and the title is
  \<^verbatim>\<open>Interest Fading?\<close> when the latest reading is 0 and the readings sum to more than 0,
  and otherwise the bucket of the latest reading: above 85 \<^verbatim>\<open>Peak Interest!\<close>, above 65
  \<^verbatim>\<open>High Interest\<close>, above 40 \<^verbatim>\<open>Moderate Interest\<close>, above 15 \<^verbatim>\<open>Low Interest\<close>, else
  \<^verbatim>\<open>Minimal Interest\<close>.
\<close>

theorem trend_title_buckets:
  assumes nonempty: "\<not> df_empty (interest td)"
    and col: "filter (\<lambda>col. fst col \<noteq> ''isPartial'') (interest td) = (name, vals) # rest"
  shows "calculate_hype_from_trends (Some td) =
           Inr (of_int (last vals),
                spec_trend_title (last vals) (sum_list vals),
                if related_snippets (related_queries td) = []
                then [''No specific related queries found.'']
                else related_snippets (related_queries td))"
proof -
  have "vals \<noteq> []"
    using nonempty col by (rule keyword_values_nonempty)
  then obtain xs where r: "rev vals = last vals # xs"
    using rev_last_first by blast
  show ?thesis
    using nonempty
    by (simp add: calculate_hype_from_trends_def col r spec_trend_title_def Let_def)
qed

theorem trend_title_buckets_witness:
  "\<not> df_empty (interest fading_trends)
   \<and> filter (\<lambda>col. fst col \<noteq> ''isPartial'') (interest fading_trends) = (''python'', [100, 240, 0]) # []
   \<and> sum_list [100, 240, 0] = (340::int)
   \<and> calculate_hype_from_trends (Some fading_trends) =
       Inr (0, ''Interest Fading?'', [''No specific related queries found.''])
   \<and> calculate_hype_from_trends (Some peak_trends) =
       Inr (90, ''Peak Interest!'',
            [''Top related: python download'', ''Top related: python list'',
             ''Rising related: python 3.13 (+250%)''])"
proof -
  have h1: "\<not> df_empty (interest fading_trends)"
    by (simp add: fading_trends_def df_empty_def)
  have h2: "filter (\<lambda>col. fst col \<noteq> ''isPartial'') (interest fading_trends) = (''python'', [100, 240, 0]) # []"
    by (simp add: fading_trends_def)
  have h3: "\<not> df_empty (interest peak_trends)"
    by (simp add: peak_trends_def df_empty_def)
  have h4: "filter (\<lambda>col. fst col \<noteq> ''isPartial'') (interest peak_trends) = (''python'', [40, 90]) # []"
    by (simp add: peak_trends_def)
  have r1: "related_snippets (related_queries fading_trends) = []"
    by (simp add: fading_trends_def related_snippets_def)
  have r2: "related_snippets (related_queries peak_trends) =
      [''Top related: python download'', ''Top related: python list'',
       ''Rising related: python 3.13 (+250%)'']"
    by (simp add: peak_trends_def related_snippets_def str_int_def str_nat.simps digit_char_def)
  show ?thesis
    using h1 h2 trend_title_buckets [OF h1 h2] trend_title_buckets [OF h3 h4]
    by (simp add: r1 r2 spec_trend_title_def)
qed

text \<open>
  Claim C10: on every documented input the function returns, and its snippets are not
  empty: missing or empty trend data give the single snippet
  \<^verbatim>\<open>Could not retrieve sufficient trend data.\<close>, and data without related-query snippets
  give the single snippet \<^verbatim>\<open>No specific related queries found.\<close>
\<close>

theorem trends_snippets_nonempty:
  assumes wf: "documented_input trends_data"
  shows "((trends_data = None \<or> (\<exists>td. trends_data = Some td \<and> df_empty (interest td))) \<longrightarrow>
            calculate_hype_from_trends trends_data =
              Inr (0, ''No Data'', [''Could not retrieve sufficient trend data.'']))
       \<and> (\<exists>sc ti sn. calculate_hype_from_trends trends_data = Inr (sc, ti, sn) \<and> sn \<noteq> []
            \<and> ((\<exists>td. trends_data = Some td \<and> \<not> df_empty (interest td)
                      \<and> related_snippets (related_queries td) = [])
                 \<longrightarrow> sn = [''No specific related queries found.'']))"
proof (cases trends_data)
  case None
  then show ?thesis by (simp add: calculate_hype_from_trends_def)
next
  case (Some td)
  show ?thesis
  proof (cases "df_empty (interest td)")
    case True
    with Some show ?thesis by (simp add: calculate_hype_from_trends_def)
  next
    case False
    with wf Some have "has_keyword_column (interest td)"
      by (simp add: documented_input_def)
    then have "filter (\<lambda>col. fst col \<noteq> ''isPartial'') (interest td) \<noteq> []"
      by (auto simp add: has_keyword_column_def list_ex_iff filter_empty_conv)
    then obtain name vals rest where
      col: "filter (\<lambda>col. fst col \<noteq> ''isPartial'') (interest td) = (name, vals) # rest"
      by (cases "filter (\<lambda>col. fst col \<noteq> ''isPartial'') (interest td)") auto
    have "vals \<noteq> []"
      using False col by (rule keyword_values_nonempty)
    then obtain xs where r: "rev vals = last vals # xs"
      using rev_last_first by blast
    show ?thesis
      using False Some
      by (simp add: calculate_hype_from_trends_def col r Let_def)
  qed
qed

theorem trends_snippets_nonempty_witness:
  "documented_input None
   \<and> calculate_hype_from_trends None =
        Inr (0, ''No Data'', [''Could not retrieve sufficient trend data.''])
   \<and> documented_input (Some \<lparr>interest = [], related_queries = []\<rparr>)
   \<and> calculate_hype_from_trends (Some \<lparr>interest = [], related_queries = []\<rparr>) =
        Inr (0, ''No Data'', [''Could not retrieve sufficient trend data.''])
   \<and> documented_input (Some fading_trends)
   \<and> (\<exists>sc ti. calculate_hype_from_trends (Some fading_trends) =
        Inr (sc, ti, [''No specific related queries found.'']))"
proof -
  have h1: "documented_input None"
    by (simp add: documented_input_def)
  have h2: "documented_input (Some \<lparr>interest = [], related_queries = []\<rparr>)"
    by (simp add: documented_input_def df_empty_def)
  have h3: "documented_input (Some fading_trends)"
    by (simp add: documented_input_def has_keyword_column_def fading_trends_def)
  have e1: "\<not> df_empty (interest fading_trends)"
    by (simp add: fading_trends_def df_empty_def)
  have e2: "related_snippets (related_queries fading_trends) = []"
    by (simp add: fading_trends_def related_snippets_def)
  have e3: "df_empty (interest \<lparr>interest = [], related_queries = []\<rparr>)"
    by (simp add: df_empty_def)
  have n: "calculate_hype_from_trends None =
        Inr (0, ''No Data'', [''Could not retrieve sufficient trend data.''])"
    using trends_snippets_nonempty [OF h1] by simp
  have m: "calculate_hype_from_trends (Some \<lparr>interest = [], related_queries = []\<rparr>) =
        Inr (0, ''No Data'', [''Could not retrieve sufficient trend data.''])"
    using trends_snippets_nonempty [OF h2] e3 by blast
  have v: "\<exists>sc ti. calculate_hype_from_trends (Some fading_trends) =
        Inr (sc, ti, [''No specific related queries found.''])"
    using trends_snippets_nonempty [OF h3] e1 e2 by auto
  from h1 h2 h3 n m v show ?thesis by blast
qed

end
